theory Spec2Isabelle
  imports Complex_Main "HOL-Library.Word"
begin

section \<open>Numbers\<close>

text \<open>
  The program computes with C++ \<^verbatim>\<open>float\<close> and \<^verbatim>\<open>double\<close>. A value of either type
  is modelled as \<open>Fin r\<close>, a finite number idealised as the real \<open>r\<close> it stands for
  (rounding is not modelled), or as \<open>NonFinite\<close>, an infinity or a NaN. The arithmetic
  operations are lifted accordingly: dividing by zero and the inverse square root of
  zero leave the finite numbers, as they do in IEEE arithmetic.
\<close>

datatype fp = Fin real | NonFinite

fun fp_add :: "fp \<Rightarrow> fp \<Rightarrow> fp" where
  "fp_add (Fin a) (Fin b) = Fin (a + b)"
| "fp_add _ _ = NonFinite"

fun fp_sub :: "fp \<Rightarrow> fp \<Rightarrow> fp" where
  "fp_sub (Fin a) (Fin b) = Fin (a - b)"
| "fp_sub _ _ = NonFinite"

fun fp_mul :: "fp \<Rightarrow> fp \<Rightarrow> fp" where
  "fp_mul (Fin a) (Fin b) = Fin (a * b)"
| "fp_mul _ _ = NonFinite"

fun fp_div :: "fp \<Rightarrow> fp \<Rightarrow> fp" where
  "fp_div (Fin a) (Fin b) = (if b = 0 then NonFinite else Fin (a / b))"
| "fp_div _ _ = NonFinite"

fun fp_inversesqrt :: "fp \<Rightarrow> fp" where
  "fp_inversesqrt (Fin a) = (if a \<le> 0 then NonFinite else Fin (1 / sqrt a))"
| "fp_inversesqrt NonFinite = NonFinite"

type_synonym vec2 = "fp \<times> fp"
type_synonym vec4 = "fp \<times> fp \<times> fp \<times> fp"

text \<open>C integer division truncates towards zero.\<close>

definition c_div :: "int \<Rightarrow> int \<Rightarrow> int" where
  "c_div a b = (if (a < 0) = (b < 0) then \<bar>a\<bar> div \<bar>b\<bar> else - (\<bar>a\<bar> div \<bar>b\<bar>))"

section \<open>Constants and the particle record\<close>

definition NUM_PARTICLES :: int where
  "NUM_PARTICLES = 1000"

definition WORK_GROUP_SIZE :: int where
  "WORK_GROUP_SIZE = 10"

record Particle =
  position :: vec2
  velocity :: vec2
  color :: vec4
  age :: fp
  lifeTime :: fp

text \<open>Ten packed floats of four bytes; \<open>color\<close> follows the two \<open>vec2\<close> fields.\<close>

definition sizeof_Particle :: nat where
  "sizeof_Particle = 40"

definition offsetof_position :: nat where
  "offsetof_position = 0"

definition offsetof_color :: nat where
  "offsetof_color = 16"

text \<open>The global vector \<open>particles(NUM_PARTICLES)\<close>: value-initialised records.\<close>

definition zero_Particle :: Particle where
  "zero_Particle = \<lparr>position = (Fin 0, Fin 0), velocity = (Fin 0, Fin 0),
     color = (Fin 0, Fin 0, Fin 0, Fin 0), age = Fin 0, lifeTime = Fin 0\<rparr>"

definition particles :: "Particle list" where
  "particles = replicate (nat NUM_PARTICLES) zero_Particle"

section \<open>The work-group count of the dispatch call\<close>

text \<open>
  Line 231: \<^verbatim>\<open>glDispatchCompute(NUM_PARTICLES +9/ WORK_GROUP_SIZE, 1, 1)\<close>. In C++ the
  division binds tighter than the addition.
\<close>

definition dispatch_groups :: int where
  "dispatch_groups = NUM_PARTICLES + (c_div 9 WORK_GROUP_SIZE)"

text \<open>The count the specification asks for, in its own words: \<open>ceil(N / groupSize)\<close>.\<close>

definition spec_dispatch_groups :: "int \<Rightarrow> int \<Rightarrow> int" where
  "spec_dispatch_groups n g = \<lceil>real_of_int n / real_of_int g\<rceil>"

section \<open>Seeding the particles\<close>

text \<open>
  The random engine, the uniform real distribution and \<^verbatim>\<open>std::random_device\<close>
  belong to the C++ standard library, and \<^verbatim>\<open>glm::normalize\<close> and the product of a
  vector and a number to GLM: none is code of the repository, and all are parameters.
  An engine state has type \<open>'e\<close>; a distribution over the range from \<open>a\<close> to \<open>b\<close>
  draws a finite number and returns the engine advanced. Two more parameters belong to
  the compiler: the conversion of a \<^verbatim>\<open>double\<close> to \<^verbatim>\<open>float\<close>, and the order in which
  the three colour arguments of line 85 are evaluated, which C++ leaves unspecified.
\<close>

text \<open>The colour channels, in the order in which their arguments are evaluated.\<close>

datatype arg_order = RGB | RBG | GRB | GBR | BRG | BGR

text \<open>
  \<open>place order d1 d2 d3\<close>: the red, green and blue channel, when the arguments are
  evaluated in that order and yield \<open>d1\<close>, then \<open>d2\<close>, then \<open>d3\<close>.
\<close>

fun place :: "arg_order \<Rightarrow> 'a \<Rightarrow> 'a \<Rightarrow> 'a \<Rightarrow> 'a \<times> 'a \<times> 'a" where
  "place RGB d1 d2 d3 = (d1, d2, d3)"
| "place RBG d1 d2 d3 = (d1, d3, d2)"
| "place GRB d1 d2 d3 = (d2, d1, d3)"
| "place GBR d1 d2 d3 = (d3, d1, d2)"
| "place BRG d1 d2 d3 = (d2, d3, d1)"
| "place BGR d1 d2 d3 = (d3, d2, d1)"

record 'e library =
  mt19937 :: "32 word \<Rightarrow> 'e"
  uniform_real_distribution :: "real \<Rightarrow> real \<Rightarrow> 'e \<Rightarrow> real \<times> 'e"
  to_float :: "real \<Rightarrow> fp"
  glm_normalize :: "vec2 \<Rightarrow> vec2"
  glm_scale :: "vec2 \<Rightarrow> fp \<Rightarrow> vec2"
  argument_order :: arg_order

text \<open>Lines 70 to 72: the three distributions the program constructs.\<close>

definition distr :: "'e library \<Rightarrow> 'e \<Rightarrow> real \<times> 'e" where
  "distr lib = uniform_real_distribution lib (- 1) 1"

definition colorDistr :: "'e library \<Rightarrow> 'e \<Rightarrow> real \<times> 'e" where
  "colorDistr lib = uniform_real_distribution lib 0 1"

definition lifeTimeDistr :: "'e library \<Rightarrow> 'e \<Rightarrow> real \<times> 'e" where
  "lifeTimeDistr lib = uniform_real_distribution lib 1.5 3"

text \<open>
  One pass of the loop body of lines 75 to 89. The two direction draws and the three
  colour draws are \<^verbatim>\<open>double\<close> values stored as \<^verbatim>\<open>float\<close>; the lifetime is drawn as a
  \<^verbatim>\<open>float\<close>. \<open>c1\<close>, \<open>c2\<close> and \<open>c3\<close> are the colour draws in the order in which they
  are made.
\<close>

definition seed_particle :: "'e library \<Rightarrow> 'e \<Rightarrow> Particle \<Rightarrow> Particle \<times> 'e" where
  "seed_particle lib eng particle =
     (let (dirX, eng1) = distr lib eng;
          (dirY, eng2) = distr lib eng1;
          direction = glm_normalize lib (to_float lib dirX, to_float lib dirY);
          randomSpeedFactor = fp_add (Fin 0.2) (Fin 0.005);
          (c1, eng3) = colorDistr lib eng2;
          (c2, eng4) = colorDistr lib eng3;
          (c3, eng5) = colorDistr lib eng4;
          (r, g, b) = place (argument_order lib)
                        (to_float lib c1) (to_float lib c2) (to_float lib c3);
          (life, eng6) = lifeTimeDistr lib eng5
      in (particle\<lparr>position := (Fin 20, Fin 20),
                    velocity := glm_scale lib direction randomSpeedFactor,
                    color := (r, g, b, Fin 1),
                    age := Fin 0,
                    lifeTime := Fin life\<rparr>, eng6))"

fun seed_particles :: "'e library \<Rightarrow> 'e \<Rightarrow> Particle list \<Rightarrow> Particle list \<times> 'e" where
  "seed_particles lib eng [] = ([], eng)"
| "seed_particles lib eng (p # ps) =
     (let (p', eng') = seed_particle lib eng p;
          (ps', eng'') = seed_particles lib eng' ps
      in (p' # ps', eng''))"

text \<open>Lines 67 to 89: the engine is built from the value the random device returns.\<close>

definition init_particles :: "'e library \<Rightarrow> 32 word \<Rightarrow> Particle list" where
  "init_particles lib rd = fst (seed_particles lib (mt19937 lib rd) particles)"

section \<open>The calls the program makes\<close>

datatype shader_type = GL_COMPUTE_SHADER | GL_VERTEX_SHADER | GL_FRAGMENT_SHADER

datatype buffer_target =
  GL_SHADER_STORAGE_BUFFER | GL_ARRAY_BUFFER | GL_COPY_READ_BUFFER | GL_COPY_WRITE_BUFFER

datatype usage = GL_DYNAMIC_DRAW | GL_STREAM_DRAW

text \<open>
  A run is observed as the list of calls it makes, in program order: to GLFW and GLEW
  (\<open>Glfw\<close>), to the clock, the random device, the file system and the two output
  streams (\<open>Std\<close>), and to OpenGL for shaders and programs (\<open>Prog\<close>), for buffers and
  vertex arrays (\<open>Buf\<close>) and for everything else (\<open>Gl\<close>). Handles are numbers; a GLint
  uniform location is an \<open>int\<close>. A line written to a stream is one call (the text before
  \<^verbatim>\<open>std::endl\<close>); the two lines that print numbers carry the numbers.
\<close>

datatype glfw_call =
    GlfwInit
  | GlfwCreateWindow nat nat string
  | GlfwTerminate
  | GlfwMakeContextCurrent nat
  | GlewInit
  | GlfwSetCursorPosCallback nat
  | GlfwWindowShouldClose nat
  | GlfwSwapBuffers nat
  | GlfwPollEvents
  | GlfwGetFramebufferSize nat

datatype std_call =
    ClockNow
  | RandomDevice
  | Cerr string
  | OpenFile string
  | CoutParticle nat Particle
  | CoutMouse vec2

datatype gl_program_call =
    GlCreateShader shader_type
  | GlShaderSource nat string
  | GlCompileShader nat
  | GlGetShaderiv nat
  | GlGetShaderInfoLog nat
  | GlCreateProgram
  | GlAttachShader nat nat
  | GlLinkProgram nat
  | GlGetProgramiv nat
  | GlGetProgramInfoLog nat
  | GlUseProgram nat
  | GlDeleteShader nat
  | GlDeleteProgram nat

datatype gl_buffer_call =
    GlGenBuffers
  | GlGenVertexArrays
  | GlBindBuffer buffer_target nat
  | GlBufferData buffer_target nat "Particle list option" usage
  | GlBindVertexArray nat
  | GlEnableVertexAttribArray nat
  | GlVertexAttribPointer nat nat nat nat
  | GlMapBuffer buffer_target
  | GlUnmapBuffer buffer_target
  | GlCopyBufferSubData buffer_target buffer_target nat nat nat
  | GlBindBufferBase buffer_target nat nat
  | GlDeleteBuffers nat
  | GlDeleteVertexArrays nat

datatype gl_draw_call =
    GlEnableBlend
  | GlBlendFunc
  | GlClear
  | GlPointSize fp
  | GlGetUniformLocation nat string
  | GlUniform2f int fp fp
  | GlUniform1f int fp
  | GlDispatchCompute int int int
  | GlDrawArrays int int
  | GlGetError
  | GlMemoryBarrier

datatype call =
    Glfw glfw_call
  | Std std_call
  | Prog gl_program_call
  | Buf gl_buffer_call
  | Gl gl_draw_call

section \<open>What the outside world answers\<close>

text \<open>
  One cursor event delivered while the program polls: the raw pixel coordinates, and the
  size \<^verbatim>\<open>glfwGetFramebufferSize\<close> reports inside the callback.
\<close>

record cursor_event =
  xpos :: real
  ypos :: real
  fb_width :: int
  fb_height :: int

text \<open>
  What one pass of the main loop is answered: the clock, the mapped buffer (\<open>None\<close> for
  a null pointer; a mapped buffer is read by index), the two uniform locations and the
  cursor events of the poll.
\<close>

record frame_world =
  now :: real
  mapped :: "(nat \<Rightarrow> Particle) option"
  mousePosLoc :: int
  deltaTimeLoc :: int
  cursor_events :: "cursor_event list"

text \<open>
  The answers of a whole run. Every query to the GL driver is answered on its own: the
  model assumes no relation between two answers. \<open>should_close n\<close> is what
  \<^verbatim>\<open>glfwWindowShouldClose\<close> returns the \<open>n\<close>-th time it is asked (from 0), and
  \<open>frames n\<close> answers the pass that follows when it returned false.
\<close>

record 'e world =
  random_library :: "'e library"
  glfwInit_ok :: bool
  created_window :: "nat option"
  glewInit_ok :: bool
  start_time :: real
  rd :: "32 word"
  files :: "string \<Rightarrow> string option"
  created_shader :: "shader_type \<Rightarrow> nat"
  compiled_ok :: "shader_type \<Rightarrow> bool"
  shader_log :: "shader_type \<Rightarrow> string"
  success_in_main :: "shader_type \<Rightarrow> bool"
  main_shader_log :: "shader_type \<Rightarrow> string"
  created_compute_program :: nat
  compute_linked_ok :: bool
  compute_program_log :: string
  created_render_program :: nat
  render_linked_ok :: bool
  render_program_log :: string
  generated_ssbo :: nat
  generated_vao :: nat
  generated_vbo :: nat
  should_close :: "nat \<Rightarrow> bool"
  frames :: "nat \<Rightarrow> frame_world"

section \<open>The program\<close>

text \<open>
  The variables the main loop and the cursor callback change: the global \<open>mousePos\<close>
  (zero before the first callback) and the two timing variables of \<open>main\<close>.
\<close>

record prog_state =
  mousePos :: vec2
  lastFrameTime :: real
  deltaTime :: fp

definition initial_state :: "'e world \<Rightarrow> prog_state" where
  "initial_state w = \<lparr>mousePos = (Fin 0, Fin 0), lastFrameTime = start_time w, deltaTime = Fin 0\<rparr>"

text \<open>Lines 265 to 271. The \<open>int\<close> sizes are converted to \<open>double\<close> by the division.\<close>

definition mouse_callback :: "nat \<Rightarrow> prog_state \<Rightarrow> cursor_event \<Rightarrow> call list \<times> prog_state" where
  "mouse_callback window st ev =
     (let width = fb_width ev;
          height = fb_height ev;
          x = fp_sub (fp_mul (fp_div (Fin (xpos ev)) (Fin (real_of_int width))) (Fin 2)) (Fin 1);
          y = fp_sub (Fin 1) (fp_mul (fp_div (Fin (ypos ev)) (Fin (real_of_int height))) (Fin 2))
      in ([Glfw (GlfwGetFramebufferSize window), Std (CoutMouse (x, y))],
          st\<lparr>mousePos := (x, y)\<rparr>))"

text \<open>\<^verbatim>\<open>glfwPollEvents\<close> runs the callback once for each pending cursor event, in order.\<close>

fun deliver :: "nat \<Rightarrow> prog_state \<Rightarrow> cursor_event list \<Rightarrow> call list \<times> prog_state" where
  "deliver window st [] = ([], st)"
| "deliver window st (ev # evs) =
     (let (calls, st') = mouse_callback window st ev;
          (rest, st'') = deliver window st' evs
      in (calls @ rest, st''))"

text \<open>
  Lines 273 to 279. A file that cannot be opened leaves the stream without a buffer to
  read: nothing is inserted into the string stream, whose text stays empty.
\<close>

definition ReadShaderFile :: "(string \<Rightarrow> string option) \<Rightarrow> string \<Rightarrow> call list \<times> string" where
  "ReadShaderFile fs shaderPath =
     ([Std (OpenFile shaderPath)], (case fs shaderPath of None \<Rightarrow> [] | Some text \<Rightarrow> text))"

definition newline :: string where
  "newline = [CHR 0x0A]"

text \<open>Lines 281 to 298.\<close>

definition CompileShader :: "'e world \<Rightarrow> string \<Rightarrow> shader_type \<Rightarrow> call list \<times> nat" where
  "CompileShader w source shaderType =
     (let shader = created_shader w shaderType;
          calls = [Prog (GlCreateShader shaderType), Prog (GlShaderSource shader source),
                   Prog (GlCompileShader shader), Prog (GlGetShaderiv shader)]
      in if \<not> compiled_ok w shaderType
         then (calls @ [Prog (GlGetShaderInfoLog shader),
                        Std (Cerr (''ERROR::SHADER::COMPILATION_FAILED'' @ newline
                                   @ shader_log w shaderType))], 0)
         else (calls, shader))"

text \<open>Lines 97 to 101, 118 to 122 and 126 to 130: the check \<open>main\<close> repeats on the handle.\<close>

definition check_shader :: "'e world \<Rightarrow> nat \<Rightarrow> shader_type \<Rightarrow> string \<Rightarrow> call list" where
  "check_shader w shader shaderType tag =
     Prog (GlGetShaderiv shader) #
     (if \<not> success_in_main w shaderType
      then [Prog (GlGetShaderInfoLog shader),
            Std (Cerr (tag @ newline @ main_shader_log w shaderType))]
      else [])"

text \<open>Lines 36 to 68, for a run in which the three initialisations succeed.\<close>

definition startup_calls :: "nat \<Rightarrow> call list" where
  "startup_calls window =
     [Glfw GlfwInit,
      Glfw (GlfwCreateWindow 640 480 ''Compute Shader Particle System''),
      Glfw (GlfwMakeContextCurrent window),
      Glfw GlewInit,
      Glfw (GlfwSetCursorPosCallback window),
      Std ClockNow,
      Std RandomDevice]"

text \<open>Lines 91 to 141: the calls, and the three shader handles kept for the cleanup.\<close>

definition load_programs :: "'e world \<Rightarrow> call list \<times> nat \<times> nat \<times> nat" where
  "load_programs w =
     (let (read_c, computeShaderSource) = ReadShaderFile (files w) ''compute_shader.glsl'';
          (compile_c, computeShader) = CompileShader w computeShaderSource GL_COMPUTE_SHADER;
          computeShaderProgram = created_compute_program w;
          (read_v, vertexShaderSource) = ReadShaderFile (files w) ''vertex_shader.glsl'';
          (read_f, fragmentShaderSource) = ReadShaderFile (files w) ''fragment_shader.glsl'';
          (compile_v, vertexShader) = CompileShader w vertexShaderSource GL_VERTEX_SHADER;
          (compile_f, fragmentShader) = CompileShader w fragmentShaderSource GL_FRAGMENT_SHADER;
          renderShaderProgram = created_render_program w
      in (read_c @ compile_c
          @ check_shader w computeShader GL_COMPUTE_SHADER ''ERROR::COMPUTESHADER::COMPILATION_FAILED''
          @ [Prog GlCreateProgram, Prog (GlAttachShader computeShaderProgram computeShader),
             Prog (GlLinkProgram computeShaderProgram), Prog (GlGetProgramiv computeShaderProgram)]
          @ (if \<not> compute_linked_ok w
             then [Prog (GlGetProgramInfoLog computeShaderProgram),
                   Std (Cerr (''ERROR::COMPUTEPROGRAM::LINKING_FAILED'' @ newline
                              @ compute_program_log w))]
             else [])
          @ read_v @ read_f @ compile_v
          @ check_shader w vertexShader GL_VERTEX_SHADER ''ERROR::VERTEXSHADER::COMPILATION_FAILED''
          @ compile_f
          @ check_shader w fragmentShader GL_FRAGMENT_SHADER ''ERROR::FRAGMENTSHADER::COMPILATION_FAILED''
          @ [Prog GlCreateProgram, Prog (GlAttachShader renderShaderProgram vertexShader),
             Prog (GlAttachShader renderShaderProgram fragmentShader),
             Prog (GlLinkProgram renderShaderProgram), Prog (GlGetProgramiv renderShaderProgram)]
          @ (if \<not> render_linked_ok w
             then [Prog (GlGetProgramInfoLog renderShaderProgram),
                   Std (Cerr (''ERROR::RENDERPROGRAM::LINKING_FAILED'' @ newline
                              @ render_program_log w))]
             else []),
          computeShader, vertexShader, fragmentShader))"

text \<open>Lines 143 to 169: the seeded particles are uploaded to the storage buffer.\<close>

definition setup_buffers :: "'e world \<Rightarrow> Particle list \<Rightarrow> call list" where
  "setup_buffers w seeded =
     [Buf GlGenBuffers,
      Buf (GlBindBuffer GL_SHADER_STORAGE_BUFFER (generated_ssbo w)),
      Buf (GlBufferData GL_SHADER_STORAGE_BUFFER (length seeded * sizeof_Particle)
             (Some seeded) GL_DYNAMIC_DRAW),
      Buf GlGenVertexArrays,
      Buf GlGenBuffers,
      Buf (GlBindVertexArray (generated_vao w)),
      Buf (GlBindBuffer GL_ARRAY_BUFFER (generated_vbo w)),
      Buf (GlBufferData GL_ARRAY_BUFFER (length seeded * sizeof_Particle) None GL_STREAM_DRAW),
      Buf (GlEnableVertexAttribArray 0),
      Buf (GlVertexAttribPointer 0 2 sizeof_Particle offsetof_position),
      Buf (GlEnableVertexAttribArray 1),
      Buf (GlVertexAttribPointer 1 4 sizeof_Particle offsetof_color),
      Buf (GlBindBuffer GL_ARRAY_BUFFER 0),
      Buf (GlBindVertexArray 0),
      Gl GlEnableBlend,
      Gl GlBlendFunc]"

text \<open>Lines 213 to 229: a uniform is pushed when its location is not \<open>-1\<close>.\<close>

definition push_mousePos :: "frame_world \<Rightarrow> prog_state \<Rightarrow> call list" where
  "push_mousePos fw st =
     (if mousePosLoc fw \<noteq> - 1
      then [Gl (GlUniform2f (mousePosLoc fw) (fst (mousePos st)) (snd (mousePos st)))]
      else [Std (Cerr ''mousePos uniform location not found.'')])"

definition push_deltaTime :: "frame_world \<Rightarrow> prog_state \<Rightarrow> call list" where
  "push_deltaTime fw st =
     (if deltaTimeLoc fw \<noteq> - 1
      then [Gl (GlUniform1f (deltaTimeLoc fw) (deltaTime st))]
      else [Std (Cerr ''deltaTime uniform location not found.'')])"

text \<open>Lines 191 to 204: the first ten records of the mapped buffer are printed.\<close>

definition debug_read :: "frame_world \<Rightarrow> call list" where
  "debug_read fw =
     (case mapped fw of
        None \<Rightarrow> []
      | Some particleData \<Rightarrow>
          map (\<lambda>i. Std (CoutParticle i (particleData i))) [0..<10]
          @ [Buf (GlUnmapBuffer GL_SHADER_STORAGE_BUFFER)])"

text \<open>Lines 176 to 243: one pass of the main loop, after the close test.\<close>

definition frame :: "'e world \<Rightarrow> nat \<Rightarrow> frame_world \<Rightarrow> prog_state \<Rightarrow> call list \<times> prog_state" where
  "frame w window fw st =
     (let computeShaderProgram = created_compute_program w;
          renderShaderProgram = created_render_program w;
          particleSSBO = generated_ssbo w;
          particleVAO = generated_vao w;
          particleVBO = generated_vbo w;
          currentFrameTime = now fw;
          st1 = st\<lparr>deltaTime := Fin (currentFrameTime - lastFrameTime st),
                    lastFrameTime := currentFrameTime\<rparr>;
          (callback_calls, st2) = deliver window st1 (cursor_events fw)
      in ([Gl GlClear,
           Gl (GlPointSize (Fin 10)),
           Std ClockNow,
           Prog (GlUseProgram computeShaderProgram),
           Buf (GlBindBuffer GL_SHADER_STORAGE_BUFFER particleSSBO),
           Buf (GlMapBuffer GL_SHADER_STORAGE_BUFFER)]
          @ debug_read fw
          @ [Buf (GlBindBuffer GL_SHADER_STORAGE_BUFFER 0),
             Buf (GlBindBuffer GL_COPY_READ_BUFFER particleSSBO),
             Buf (GlBindBuffer GL_COPY_WRITE_BUFFER particleVBO),
             Buf (GlCopyBufferSubData GL_COPY_READ_BUFFER GL_COPY_WRITE_BUFFER 0 0
                    (length particles * sizeof_Particle)),
             Gl (GlGetUniformLocation computeShaderProgram ''mousePos''),
             Gl (GlGetUniformLocation computeShaderProgram ''deltaTime'')]
          @ push_mousePos fw st1
          @ push_deltaTime fw st1
          @ [Buf (GlBindBufferBase GL_SHADER_STORAGE_BUFFER 0 particleSSBO),
             Gl (GlDispatchCompute dispatch_groups 1 1),
             Prog (GlUseProgram renderShaderProgram),
             Buf (GlBindVertexArray particleVAO),
             Gl (GlDrawArrays 0 NUM_PARTICLES),
             Glfw (GlfwSwapBuffers window),
             Glfw GlfwPollEvents]
          @ callback_calls,
          st2))"

text \<open>
  Lines 173 to 244. The loop runs until the window is asked to close, which may be
  never: \<open>fuel\<close> bounds the number of close tests, and \<open>None\<close> says it ran out. \<open>n\<close>
  counts the passes made so far.
\<close>

fun main_loop ::
  "nat \<Rightarrow> 'e world \<Rightarrow> nat \<Rightarrow> nat \<Rightarrow> prog_state \<Rightarrow> (call list \<times> prog_state) option" where
  "main_loop 0 w window n st = None"
| "main_loop (Suc fuel) w window n st =
     (if should_close w n then Some ([Glfw (GlfwWindowShouldClose window)], st)
      else (let (calls, st') = frame w window (frames w n) st
            in case main_loop fuel w window (Suc n) st' of
                 None \<Rightarrow> None
               | Some (rest, st'') \<Rightarrow>
                   Some (Glfw (GlfwWindowShouldClose window) # calls @ rest, st'')))"

text \<open>Lines 246 to 262.\<close>

definition cleanup_calls :: "'e world \<Rightarrow> nat \<Rightarrow> nat \<Rightarrow> nat \<Rightarrow> call list" where
  "cleanup_calls w computeShader vertexShader fragmentShader =
     [Buf (GlDeleteBuffers (generated_ssbo w)),
      Buf (GlDeleteVertexArrays (generated_vao w)),
      Buf (GlDeleteBuffers (generated_vbo w)),
      Prog (GlDeleteShader computeShader),
      Prog (GlDeleteProgram (created_compute_program w)),
      Prog (GlDeleteShader vertexShader),
      Prog (GlDeleteShader fragmentShader),
      Prog (GlDeleteProgram (created_render_program w)),
      Glfw GlfwTerminate]"

definition shutdown_calls :: "'e world \<Rightarrow> nat \<Rightarrow> nat \<Rightarrow> nat \<Rightarrow> call list" where
  "shutdown_calls w computeShader vertexShader fragmentShader =
     [Gl GlGetError, Gl GlMemoryBarrier]
     @ cleanup_calls w computeShader vertexShader fragmentShader"

text \<open>
  Lines 35 to 263: the calls of a whole run and the value \<open>main\<close> returns, or \<open>None\<close>
  when the loop outlasts the fuel.
\<close>

definition main :: "nat \<Rightarrow> 'e world \<Rightarrow> (call list \<times> int) option" where
  "main fuel w =
     (if \<not> glfwInit_ok w
      then Some ([Glfw GlfwInit, Std (Cerr ''Failed to initialize GLFW'')], - 1)
      else case created_window w of
        None \<Rightarrow>
          Some ([Glfw GlfwInit,
                 Glfw (GlfwCreateWindow 640 480 ''Compute Shader Particle System''),
                 Std (Cerr ''Failed to create GLFW window''),
                 Glfw GlfwTerminate], - 1)
      | Some window \<Rightarrow>
          if \<not> glewInit_ok w
          then Some ([Glfw GlfwInit,
                      Glfw (GlfwCreateWindow 640 480 ''Compute Shader Particle System''),
                      Glfw (GlfwMakeContextCurrent window),
                      Glfw GlewInit,
                      Std (Cerr ''Failed to initialize GLEW'')], - 1)
          else (let seeded = init_particles (random_library w) (rd w);
                    (load_calls, computeShader, vertexShader, fragmentShader) = load_programs w
                in case main_loop fuel w window 0 (initial_state w) of
                     None \<Rightarrow> None
                   | Some (loop_calls, st) \<Rightarrow>
                       Some (startup_calls window @ load_calls @ setup_buffers w seeded
                             @ loop_calls
                             @ shutdown_calls w computeShader vertexShader fragmentShader, 0)))"

section \<open>Observations on a list of calls\<close>

text \<open>The steps of one pass that the specification orders, read off the calls.\<close>

datatype stage = ClearStage | TimeStage | PushStage | DispatchStage | CopyStage | DrawStage

fun stage_of :: "call \<Rightarrow> stage option" where
  "stage_of (Gl GlClear) = Some ClearStage"
| "stage_of (Std ClockNow) = Some TimeStage"
| "stage_of (Gl (GlUniform2f l a b)) = Some PushStage"
| "stage_of (Gl (GlUniform1f l a)) = Some PushStage"
| "stage_of (Gl (GlDispatchCompute x y z)) = Some DispatchStage"
| "stage_of (Buf (GlCopyBufferSubData r t i j n)) = Some CopyStage"
| "stage_of (Gl (GlDrawArrays i n)) = Some DrawStage"
| "stage_of _ = None"

definition stages :: "call list \<Rightarrow> stage list" where
  "stages calls = List.map_filter stage_of calls"

text \<open>\<open>comes_before a b xs\<close>: some \<open>b\<close> stands after an \<open>a\<close> in \<open>xs\<close>.\<close>

fun comes_before :: "'a \<Rightarrow> 'a \<Rightarrow> 'a list \<Rightarrow> bool" where
  "comes_before a b [] = False"
| "comes_before a b (x # xs) = (if x = a then b \<in> set xs else comes_before a b xs)"

text \<open>The number of uniforms a pass pushes: one for each location found.\<close>

definition pushes :: "frame_world \<Rightarrow> nat" where
  "pushes fw = (if mousePosLoc fw = - 1 then 0 else 1) + (if deltaTimeLoc fw = - 1 then 0 else 1)"

text \<open>The calls by which a pass reacts to a uniform lookup: a push or a diagnostic.\<close>

fun uniform_reaction :: "call \<Rightarrow> bool" where
  "uniform_reaction (Gl (GlUniform2f l a b)) = True"
| "uniform_reaction (Gl (GlUniform1f l a)) = True"
| "uniform_reaction (Std (Cerr text)) = True"
| "uniform_reaction _ = False"

text \<open>The particle data of the first upload among the calls.\<close>

fun uploaded :: "call list \<Rightarrow> Particle list option" where
  "uploaded [] = None"
| "uploaded (Buf (GlBufferData t n (Some ps) u) # cs) = Some ps"
| "uploaded (c # cs) = uploaded cs"

text \<open>
  The six numbers a pass of the seeding loop draws, in the order in which it draws them:
  two from the range \<open>-1\<close> to \<open>1\<close>, three from \<open>0\<close> to \<open>1\<close>, one from \<open>1.5\<close> to \<open>3\<close>.
\<close>

record draws =
  dir_x :: real
  dir_y :: real
  colour_1 :: real
  colour_2 :: real
  colour_3 :: real
  life :: real

definition draw_pass :: "'e library \<Rightarrow> 'e \<Rightarrow> draws \<times> 'e" where
  "draw_pass lib eng =
     (let (x, e1) = uniform_real_distribution lib (- 1) 1 eng;
          (y, e2) = uniform_real_distribution lib (- 1) 1 e1;
          (c1, e3) = uniform_real_distribution lib 0 1 e2;
          (c2, e4) = uniform_real_distribution lib 0 1 e3;
          (c3, e5) = uniform_real_distribution lib 0 1 e4;
          (l, e6) = uniform_real_distribution lib 1.5 3 e5
      in (\<lparr>dir_x = x, dir_y = y, colour_1 = c1, colour_2 = c2, colour_3 = c3, life = l\<rparr>, e6))"

text \<open>
  The engine before pass \<open>i\<close> (from 0) of a run whose random device returned \<open>s\<close>, and
  the six numbers that pass draws.
\<close>

definition engine_before :: "'e library \<Rightarrow> 32 word \<Rightarrow> nat \<Rightarrow> 'e" where
  "engine_before lib s i = ((\<lambda>e. snd (draw_pass lib e)) ^^ i) (mt19937 lib s)"

definition draws_for :: "'e library \<Rightarrow> 32 word \<Rightarrow> nat \<Rightarrow> draws" where
  "draws_for lib s i = fst (draw_pass lib (engine_before lib s i))"

text \<open>
  The particle the specification describes, given the six numbers drawn for it: the
  fixed origin, a velocity that is the normalised direction scaled by the speed factor,
  a random opaque colour, zero age and a random lifetime.
\<close>

definition particle_from_draws :: "'e library \<Rightarrow> draws \<Rightarrow> Particle" where
  "particle_from_draws lib d =
     \<lparr>position = (Fin 20, Fin 20),
      velocity = glm_scale lib
                   (glm_normalize lib (to_float lib (dir_x d), to_float lib (dir_y d)))
                   (fp_add (Fin 0.2) (Fin 0.005)),
      color = (case place (argument_order lib) (to_float lib (colour_1 d))
                      (to_float lib (colour_2 d)) (to_float lib (colour_3 d))
               of (r, g, b) \<Rightarrow> (r, g, b, Fin 1)),
      age = Fin 0,
      lifeTime = Fin (life d)\<rparr>"

section \<open>Example worlds\<close>

text \<open>
  The two GLM operations in exact arithmetic: \<^verbatim>\<open>glm::normalize\<close> as
  \<^verbatim>\<open>v * inversesqrt(dot(v, v))\<close>, and the product of a vector and a number.
\<close>

definition exact_dot :: "vec2 \<Rightarrow> vec2 \<Rightarrow> fp" where
  "exact_dot u v = fp_add (fp_mul (fst u) (fst v)) (fp_mul (snd u) (snd v))"

definition exact_scale :: "vec2 \<Rightarrow> fp \<Rightarrow> vec2" where
  "exact_scale v k = (fp_mul (fst v) k, fp_mul (snd v) k)"

definition exact_normalize :: "vec2 \<Rightarrow> vec2" where
  "exact_normalize v = exact_scale v (fp_inversesqrt (exact_dot v v))"

text \<open>
  A library whose engine state counts the draws made, starting from the seed; every
  draw is the midpoint of the range plus a fraction of the range that grows with the
  count and stays below a half. It converts and computes in exact arithmetic, and
  evaluates the colour arguments from right to left.
\<close>

definition counting_lib :: "nat library" where
  "counting_lib = \<lparr>mt19937 = unat,
     uniform_real_distribution =
       (\<lambda>a b e. ((a + b) / 2 + (b - a) * (real (e mod 7) / 14), Suc e)),
     to_float = Fin,
     glm_normalize = exact_normalize,
     glm_scale = exact_scale,
     argument_order = BGR\<rparr>"

definition example_frame :: frame_world where
  "example_frame = \<lparr>now = 1, mapped = None, mousePosLoc = 3, deltaTimeLoc = 4,
     cursor_events = [\<lparr>xpos = 320, ypos = 240, fb_width = 640, fb_height = 480\<rparr>]\<rparr>"

text \<open>A run in which everything succeeds and the window closes after one pass.\<close>

definition example_world :: "nat world" where
  "example_world = \<lparr>random_library = counting_lib,
     glfwInit_ok = True, created_window = Some 1, glewInit_ok = True,
     start_time = 0, rd = 5, files = (\<lambda>path. None),
     created_shader = (\<lambda>t. 2), compiled_ok = (\<lambda>t. True), shader_log = (\<lambda>t. []),
     success_in_main = (\<lambda>t. True), main_shader_log = (\<lambda>t. []),
     created_compute_program = 3, compute_linked_ok = True, compute_program_log = [],
     created_render_program = 4, render_linked_ok = True, render_program_log = [],
     generated_ssbo = 5, generated_vao = 6, generated_vbo = 7,
     should_close = (\<lambda>n. 1 \<le> n), frames = (\<lambda>n. example_frame)\<rparr>"

text \<open>The same run, but GLEW fails to initialise; and one where no window is created.\<close>

definition glew_failure_world :: "nat world" where
  "glew_failure_world = example_world\<lparr>glewInit_ok := False\<rparr>"

definition window_failure_world :: "nat world" where
  "window_failure_world = example_world\<lparr>created_window := None\<rparr>"

section \<open>Facts about one pass of the main loop\<close>

lemma stages_Nil: "stages [] = []"
  by (simp add: stages_def List.map_filter_simps)

lemma stages_Cons:
  "stages (c # cs) = (case stage_of c of None \<Rightarrow> stages cs | Some s \<Rightarrow> s # stages cs)"
  by (cases "stage_of c") (simp_all add: stages_def List.map_filter_simps)

lemma stages_append: "stages (xs @ ys) = stages xs @ stages ys"
  by (simp add: stages_def List.map_filter_def)

lemma stages_mouse_callback: "stages (fst (mouse_callback window st ev)) = []"
  by (simp add: mouse_callback_def Let_def stages_Nil stages_Cons)

lemma stages_deliver: "stages (fst (deliver window st evs)) = []"
proof (induction evs arbitrary: st)
  case Nil
  show ?case by (simp add: stages_Nil)
next
  case (Cons ev evs)
  obtain c1 st1 where m: "mouse_callback window st ev = (c1, st1)"
    by (cases "mouse_callback window st ev")
  obtain c2 st2 where d: "deliver window st1 evs = (c2, st2)"
    by (cases "deliver window st1 evs")
  have "stages c1 = []" using stages_mouse_callback [of window st ev] m by simp
  moreover have "stages c2 = []" using Cons.IH [of st1] d by simp
  ultimately show ?case by (simp add: m d stages_append)
qed

lemma stages_debug_read: "stages (debug_read fw) = []"
  by (simp add: debug_read_def stages_def List.map_filter_def split: option.splits)

lemma stages_push:
  "stages (push_mousePos fw st) @ stages (push_deltaTime fw st) = replicate (pushes fw) PushStage"
  by (simp add: push_mousePos_def push_deltaTime_def pushes_def stages_Nil stages_Cons)

lemma frame_stages:
  "stages (fst (frame w window fw st)) =
     [ClearStage, TimeStage, CopyStage] @ replicate (pushes fw) PushStage @ [DispatchStage, DrawStage]"
proof -
  obtain cb st2 where d: "deliver window
      (st\<lparr>deltaTime := Fin (now fw - lastFrameTime st), lastFrameTime := now fw\<rparr>)
      (cursor_events fw) = (cb, st2)"
    by (cases "deliver window
      (st\<lparr>deltaTime := Fin (now fw - lastFrameTime st), lastFrameTime := now fw\<rparr>)
      (cursor_events fw)")
  have cb: "stages cb = []"
    using stages_deliver [of window "st\<lparr>deltaTime := Fin (now fw - lastFrameTime st), lastFrameTime := now fw\<rparr>" "cursor_events fw"] d
    by simp
  show ?thesis
    using stages_push [of fw "st\<lparr>deltaTime := Fin (now fw - lastFrameTime st), lastFrameTime := now fw\<rparr>"]
    by (simp add: frame_def Let_def d cb stages_Nil stages_Cons stages_append stages_debug_read)
qed

lemma deliver_calls:
  "c \<in> set (fst (deliver window st evs)) \<Longrightarrow>
     c = Glfw (GlfwGetFramebufferSize window) \<or> (\<exists>v. c = Std (CoutMouse v))"
proof (induction evs arbitrary: st)
  case Nil
  then show ?case by simp
next
  case (Cons ev evs)
  obtain c1 st1 where m: "mouse_callback window st ev = (c1, st1)"
    by (cases "mouse_callback window st ev")
  obtain c2 st2 where d: "deliver window st1 evs = (c2, st2)"
    by (cases "deliver window st1 evs")
  from m have c1: "c1 = [Glfw (GlfwGetFramebufferSize window), Std (CoutMouse (mousePos st1))]"
    by (auto simp: mouse_callback_def Let_def)
  from Cons.prems have "c \<in> set c1 \<or> c \<in> set c2" by (simp add: m d)
  then show ?case
  proof
    assume "c \<in> set c1"
    then show ?thesis by (auto simp: c1)
  next
    assume "c \<in> set c2"
    then show ?thesis using Cons.IH [of st1] d by simp
  qed
qed

lemma debug_read_calls:
  "c \<in> set (debug_read fw) \<Longrightarrow>
     c = Buf (GlUnmapBuffer GL_SHADER_STORAGE_BUFFER) \<or> (\<exists>i p. c = Std (CoutParticle i p))"
  by (auto simp: debug_read_def split: option.splits)

text \<open>The calls of one pass, with the state the uniforms are read from.\<close>

lemma frame_calls:
  "fst (frame w window fw st) =
     [Gl GlClear, Gl (GlPointSize (Fin 10)), Std ClockNow,
      Prog (GlUseProgram (created_compute_program w)),
      Buf (GlBindBuffer GL_SHADER_STORAGE_BUFFER (generated_ssbo w)),
      Buf (GlMapBuffer GL_SHADER_STORAGE_BUFFER)]
     @ debug_read fw
     @ [Buf (GlBindBuffer GL_SHADER_STORAGE_BUFFER 0),
        Buf (GlBindBuffer GL_COPY_READ_BUFFER (generated_ssbo w)),
        Buf (GlBindBuffer GL_COPY_WRITE_BUFFER (generated_vbo w)),
        Buf (GlCopyBufferSubData GL_COPY_READ_BUFFER GL_COPY_WRITE_BUFFER 0 0
               (length particles * sizeof_Particle)),
        Gl (GlGetUniformLocation (created_compute_program w) ''mousePos''),
        Gl (GlGetUniformLocation (created_compute_program w) ''deltaTime'')]
     @ push_mousePos fw st
     @ push_deltaTime fw (st\<lparr>deltaTime := Fin (now fw - lastFrameTime st)\<rparr>)
     @ [Buf (GlBindBufferBase GL_SHADER_STORAGE_BUFFER 0 (generated_ssbo w)),
        Gl (GlDispatchCompute dispatch_groups 1 1),
        Prog (GlUseProgram (created_render_program w)),
        Buf (GlBindVertexArray (generated_vao w)),
        Gl (GlDrawArrays 0 NUM_PARTICLES),
        Glfw (GlfwSwapBuffers window),
        Glfw GlfwPollEvents]
     @ fst (deliver window
              (st\<lparr>deltaTime := Fin (now fw - lastFrameTime st), lastFrameTime := now fw\<rparr>)
              (cursor_events fw))"
  by (simp add: frame_def Let_def split_beta push_mousePos_def push_deltaTime_def)

lemma frame_state:
  "snd (frame w window fw st) =
     snd (deliver window
            (st\<lparr>deltaTime := Fin (now fw - lastFrameTime st), lastFrameTime := now fw\<rparr>)
            (cursor_events fw))"
  by (simp add: frame_def Let_def split_beta)

lemma no_reaction_deliver:
  "filter (\<lambda>c. \<not> uniform_reaction c) (fst (deliver window st evs)) = fst (deliver window st evs)"
  by (rule filter_True) (auto dest!: deliver_calls)

lemma dispatch_filter:
  "filter (\<lambda>c. stage_of c = Some DispatchStage) (fst (frame w window fw st))
     = [Gl (GlDispatchCompute dispatch_groups 1 1)]"
proof -
  have a: "filter (\<lambda>c. stage_of c = Some DispatchStage) (debug_read fw) = []"
    by (auto simp: filter_empty_conv dest!: debug_read_calls)
  have b: "filter (\<lambda>c. stage_of c = Some DispatchStage) (fst (deliver window s evs)) = []" for s evs
    by (auto simp: filter_empty_conv dest!: deliver_calls)
  show ?thesis
    by (simp add: frame_calls a b push_mousePos_def push_deltaTime_def)
qed

section \<open>The dispatch count\<close>

text \<open>
  C1. The specification asks that every pass dispatch \<open>ceil(N / groupSize)\<close> work-groups,
  which is 100 for the constants 1000 and 10. The dispatch call of the program is written
  without parentheses around \<open>N + 9\<close>: its only dispatch call in a pass requests
  \<open>1000 + 9 / 10 = 1000\<close> work-groups in the x dimension, not 100.
\<close>

theorem dispatch_requests_1000_groups:
  "dispatch_groups = 1000 \<and>
   spec_dispatch_groups NUM_PARTICLES WORK_GROUP_SIZE = 100 \<and>
   filter (\<lambda>c. stage_of c = Some DispatchStage) (fst (frame w window fw st))
     = [Gl (GlDispatchCompute 1000 1 1)]"
  by (simp add: dispatch_filter)
     (simp add: dispatch_groups_def spec_dispatch_groups_def NUM_PARTICLES_def
        WORK_GROUP_SIZE_def c_div_def)

section \<open>The order of the steps of a pass\<close>

text \<open>
  C2, as stated: in every pass the copy of the storage buffer into the buffer the render
  stage reads comes after the compute dispatch of that pass. In the example world it
  does not: no copy follows the dispatch.
\<close>

theorem copy_after_dispatch_counterexample:
  "\<not> comes_before DispatchStage CopyStage
       (stages (fst (frame example_world 1 example_frame (initial_state example_world))))"
proof -
  have "stages (fst (frame example_world 1 example_frame (initial_state example_world)))
      = [ClearStage, TimeStage, CopyStage, PushStage, PushStage, DispatchStage, DrawStage]"
    using frame_stages [of example_world 1 example_frame "initial_state example_world"]
    by (simp add: pushes_def example_frame_def numeral_2_eq_2)
  then show ?thesis by simp
qed

text \<open>
  C2, amended: in every pass the steps occur in the order clear, elapsed time, copy of the
  storage buffer into the render buffer, one push for each uniform found, compute
  dispatch, draw. The copy comes before the dispatch of the same pass, and none comes
  after it.
\<close>

theorem frame_stage_order:
  "stages (fst (frame w window fw st)) =
     [ClearStage, TimeStage, CopyStage] @ replicate (pushes fw) PushStage
       @ [DispatchStage, DrawStage] \<and>
   comes_before CopyStage DispatchStage (stages (fst (frame w window fw st))) \<and>
   \<not> comes_before DispatchStage CopyStage (stages (fst (frame w window fw st)))"
proof -
  have "\<not> comes_before DispatchStage CopyStage (replicate k PushStage @ [DispatchStage, DrawStage])"
    for k by (induction k) simp_all
  then show ?thesis by (simp add: frame_stages)
qed

theorem frame_stage_order_witness:
  "stages (fst (frame example_world 1 (example_frame\<lparr>deltaTimeLoc := - 1\<rparr>)
                  (initial_state example_world)))
     = [ClearStage, TimeStage, CopyStage, PushStage, DispatchStage, DrawStage]"
  using frame_stage_order [of example_world 1 "example_frame\<lparr>deltaTimeLoc := - 1\<rparr>"
      "initial_state example_world"]
  by (simp add: pushes_def example_frame_def)

section \<open>Facts about a whole run\<close>

lemma uploaded_append:
  "uploaded (xs @ ys) = (case uploaded xs of None \<Rightarrow> uploaded ys | Some ps \<Rightarrow> Some ps)"
  by (induction xs rule: uploaded.induct) simp_all

lemma uploaded_None_iff:
  "uploaded cs = None \<longleftrightarrow> (\<forall>t n ps u. Buf (GlBufferData t n (Some ps) u) \<notin> set cs)"
  by (induction cs rule: uploaded.induct) auto

lemma frame_no_barrier: "Gl GlMemoryBarrier \<notin> set (fst (frame w window fw st))"
  by (auto simp: frame_calls push_mousePos_def push_deltaTime_def
        dest!: deliver_calls debug_read_calls)

lemma frame_no_upload: "uploaded (fst (frame w window fw st)) = None"
  by (auto simp: uploaded_None_iff frame_calls push_mousePos_def push_deltaTime_def
        dest!: deliver_calls debug_read_calls)

lemma main_loop_calls:
  "main_loop fuel w window n st = Some (calls, st') \<Longrightarrow>
     Gl GlMemoryBarrier \<notin> set calls \<and> uploaded calls = None \<and>
     (\<exists>pre. calls = pre @ [Glfw (GlfwWindowShouldClose window)])"
proof (induction fuel arbitrary: n st calls st')
  case 0
  then show ?case by simp
next
  case (Suc fuel)
  show ?case
  proof (cases "should_close w n")
    case True
    with Suc.prems have "calls = [Glfw (GlfwWindowShouldClose window)]" by simp
    then show ?thesis by simp
  next
    case False
    obtain fc st1 where f: "frame w window (frames w n) st = (fc, st1)"
      by (cases "frame w window (frames w n) st")
    from Suc.prems False f obtain rest st2
      where r: "main_loop fuel w window (Suc n) st1 = Some (rest, st2)"
        and c: "calls = Glfw (GlfwWindowShouldClose window) # fc @ rest"
      by (auto split: option.splits)
    from Suc.IH [OF r] obtain pre
      where ih: "Gl GlMemoryBarrier \<notin> set rest" "uploaded rest = None"
        "rest = pre @ [Glfw (GlfwWindowShouldClose window)]"
      by blast
    have fc: "Gl GlMemoryBarrier \<notin> set fc" "uploaded fc = None"
      using frame_no_barrier [of w window "frames w n" st]
        frame_no_upload [of w window "frames w n" st] f by simp_all
    have "calls = (Glfw (GlfwWindowShouldClose window) # fc @ pre)
        @ [Glfw (GlfwWindowShouldClose window)]"
      by (simp add: c ih(3))
    then have "\<exists>pre. calls = pre @ [Glfw (GlfwWindowShouldClose window)]" by blast
    then show ?thesis by (simp add: c ih(1,2) fc uploaded_append)
  qed
qed

lemma main_loop_returns:
  "should_close w (n + k) \<Longrightarrow> \<exists>r. main_loop (Suc k) w window n st = Some r"
proof (induction k arbitrary: n st)
  case 0
  then show ?case by simp
next
  case (Suc k)
  obtain fc st1 where f: "frame w window (frames w n) st = (fc, st1)"
    by (cases "frame w window (frames w n) st")
  from Suc.prems have "should_close w (Suc n + k)" by simp
  from Suc.IH [OF this] obtain r where "main_loop (Suc k) w window (Suc n) st1 = Some r"
    by blast
  then show ?case by (cases r) (simp add: f)
qed

lemma load_programs_kinds:
  "c \<in> set (fst (load_programs w)) \<Longrightarrow> (\<exists>p. c = Prog p) \<or> (\<exists>s. c = Std s)"
  by (auto simp: load_programs_def Let_def split_beta ReadShaderFile_def CompileShader_def
        check_shader_def split: if_splits)

lemma load_programs_prefix:
  "\<exists>rest. fst (load_programs w) =
     [Std (OpenFile ''compute_shader.glsl''),
      Prog (GlCreateShader GL_COMPUTE_SHADER),
      Prog (GlShaderSource (created_shader w GL_COMPUTE_SHADER)
              (snd (ReadShaderFile (files w) ''compute_shader.glsl''))),
      Prog (GlCompileShader (created_shader w GL_COMPUTE_SHADER))] @ rest"
  by (simp add: load_programs_def Let_def split_beta ReadShaderFile_def CompileShader_def)

lemma main_success:
  "main fuel w = Some (calls, 0) \<Longrightarrow>
     \<exists>window lc st. created_window w = Some window \<and> glfwInit_ok w \<and> glewInit_ok w \<and>
       main_loop fuel w window 0 (initial_state w) = Some (lc, st) \<and>
       calls = startup_calls window @ fst (load_programs w)
         @ setup_buffers w (init_particles (random_library w) (rd w)) @ lc
         @ shutdown_calls w (fst (snd (load_programs w))) (fst (snd (snd (load_programs w))))
             (snd (snd (snd (load_programs w))))"
  by (auto simp: main_def Let_def split_beta split: if_splits option.splits)

lemma main_failure:
  "main fuel w = Some (calls, rc) \<Longrightarrow> rc \<noteq> 0 \<Longrightarrow> Gl GlMemoryBarrier \<notin> set calls"
  by (auto simp: main_def Let_def split_beta split: if_splits option.splits)

lemma main_returns:
  "glfwInit_ok w \<Longrightarrow> created_window w = Some window \<Longrightarrow> glewInit_ok w \<Longrightarrow>
   should_close w k \<Longrightarrow>
     \<exists>lc st. main_loop (Suc k) w window 0 (initial_state w) = Some (lc, st) \<and>
       main (Suc k) w = Some (startup_calls window @ fst (load_programs w)
         @ setup_buffers w (init_particles (random_library w) (rd w)) @ lc
         @ shutdown_calls w (fst (snd (load_programs w))) (fst (snd (snd (load_programs w))))
             (snd (snd (snd (load_programs w)))), 0)"
proof -
  assume a: "glfwInit_ok w" "created_window w = Some window" "glewInit_ok w"
    and "should_close w k"
  then have "should_close w (0 + k)" by simp
  from main_loop_returns [OF this] obtain lc st
    where "main_loop (Suc k) w window 0 (initial_state w) = Some (lc, st)" by force
  then show ?thesis using a by (simp add: main_def Let_def split_beta)
qed

lemma main_uploads:
  "main fuel w = Some (calls, 0) \<Longrightarrow>
     uploaded calls = Some (init_particles (random_library w) (rd w))"
proof -
  assume "main fuel w = Some (calls, 0)"
  from main_success [OF this] obtain window lc st
    where c: "calls = startup_calls window @ fst (load_programs w)
         @ setup_buffers w (init_particles (random_library w) (rd w)) @ lc
         @ shutdown_calls w (fst (snd (load_programs w))) (fst (snd (snd (load_programs w))))
             (snd (snd (snd (load_programs w))))"
    by blast
  have 1: "uploaded (startup_calls window) = None" by (simp add: startup_calls_def)
  have 2: "uploaded (fst (load_programs w)) = None"
    by (auto simp: uploaded_None_iff dest!: load_programs_kinds)
  have 3: "uploaded (setup_buffers w ps) = Some ps" for ps
    by (simp add: setup_buffers_def)
  show ?thesis by (simp add: c uploaded_append 1 2 3)
qed

lemma seed_particles_length: "length (fst (seed_particles lib eng ps)) = length ps"
  by (induction ps arbitrary: eng) (simp_all add: split_beta Let_def)

lemma seed_particle_position: "position (fst (seed_particle lib eng p)) = (Fin 20, Fin 20)"
  by (simp add: seed_particle_def Let_def split_beta)

lemma seed_particles_position:
  "p \<in> set (fst (seed_particles lib eng ps)) \<Longrightarrow> position p = (Fin 20, Fin 20)"
  by (induction ps arbitrary: eng) (auto simp: split_beta Let_def seed_particle_position)

lemma example_world_returns:
  "\<exists>lc st. main_loop 2 example_world 1 0 (initial_state example_world) = Some (lc, st) \<and>
     main 2 example_world = Some (startup_calls 1 @ fst (load_programs example_world)
         @ setup_buffers example_world (init_particles counting_lib 5) @ lc
         @ shutdown_calls example_world (fst (snd (load_programs example_world)))
             (fst (snd (snd (load_programs example_world))))
             (snd (snd (snd (load_programs example_world)))), 0)"
proof -
  have "glfwInit_ok example_world" "created_window example_world = Some 1"
    "glewInit_ok example_world" "should_close example_world 1"
    by (simp_all add: example_world_def)
  from main_returns [OF this] show ?thesis
    by (simp add: numeral_2_eq_2) (simp add: example_world_def)
qed

section \<open>The memory barrier\<close>

text \<open>
  C3. No memory barrier is issued between the compute dispatch and the draw call inside
  the main loop: no pass of the loop calls \<^verbatim>\<open>glMemoryBarrier\<close> at all. A run that ends
  calls it exactly once when it returns 0, right after the close test that ends the loop
  and \<^verbatim>\<open>glGetError\<close>, with only the cleanup calls after it; a run that fails to
  initialise never calls it.
\<close>

theorem barrier_only_after_loop:
  "main fuel w = Some (calls, rc) \<Longrightarrow>
     count_list calls (Gl GlMemoryBarrier) = (if rc = 0 then 1 else 0) \<and>
     (rc = 0 \<longrightarrow> (\<exists>pre window cs vs fs. calls =
        pre @ [Glfw (GlfwWindowShouldClose window), Gl GlGetError, Gl GlMemoryBarrier]
            @ cleanup_calls w cs vs fs)) \<and>
     Gl GlMemoryBarrier \<notin> set (fst (frame w window' fw st))"
proof (cases "rc = 0")
  case False
  assume "main fuel w = Some (calls, rc)"
  from main_failure [OF this False] show ?thesis
    by (simp add: False frame_no_barrier count_list_0_iff)
next
  case True
  assume "main fuel w = Some (calls, rc)"
  with True have "main fuel w = Some (calls, 0)" by simp
  from main_success [OF this] obtain window lc s
    where l: "main_loop fuel w window 0 (initial_state w) = Some (lc, s)"
      and c: "calls = startup_calls window @ fst (load_programs w)
         @ setup_buffers w (init_particles (random_library w) (rd w)) @ lc
         @ shutdown_calls w (fst (snd (load_programs w))) (fst (snd (snd (load_programs w))))
             (snd (snd (snd (load_programs w))))"
    by blast
  from main_loop_calls [OF l] obtain pre
    where lc: "Gl GlMemoryBarrier \<notin> set lc" "lc = pre @ [Glfw (GlfwWindowShouldClose window)]"
    by blast
  have 1: "count_list (startup_calls window) (Gl GlMemoryBarrier) = 0"
    by (simp add: startup_calls_def)
  have 2: "count_list (fst (load_programs w)) (Gl GlMemoryBarrier) = 0"
    by (auto simp: count_list_0_iff dest!: load_programs_kinds)
  have 3: "count_list (setup_buffers w ps) (Gl GlMemoryBarrier) = 0" for ps
    by (simp add: setup_buffers_def)
  have 4: "count_list lc (Gl GlMemoryBarrier) = 0"
    using lc(1) by (simp add: count_list_0_iff)
  have 5: "count_list (shutdown_calls w a b d) (Gl GlMemoryBarrier) = 1" for a b d
    by (simp add: shutdown_calls_def cleanup_calls_def)
  have n: "count_list calls (Gl GlMemoryBarrier) = 1"
    by (simp add: c 1 2 3 4 5)
  have "calls = (startup_calls window @ fst (load_programs w)
         @ setup_buffers w (init_particles (random_library w) (rd w)) @ pre)
      @ [Glfw (GlfwWindowShouldClose window), Gl GlGetError, Gl GlMemoryBarrier]
      @ cleanup_calls w (fst (snd (load_programs w))) (fst (snd (snd (load_programs w))))
             (snd (snd (snd (load_programs w))))"
    by (simp add: c lc(2) shutdown_calls_def)
  then have "\<exists>pre window cs vs fs. calls =
        pre @ [Glfw (GlfwWindowShouldClose window), Gl GlGetError, Gl GlMemoryBarrier]
            @ cleanup_calls w cs vs fs"
    by blast
  then show ?thesis by (simp add: True n frame_no_barrier)
qed

theorem barrier_only_after_loop_witness:
  "\<exists>calls. main 2 example_world = Some (calls, 0) \<and> count_list calls (Gl GlMemoryBarrier) = 1"
proof -
  from example_world_returns obtain calls where m: "main 2 example_world = Some (calls, 0)"
    by blast
  from barrier_only_after_loop [OF m] show ?thesis using m by simp
qed

section \<open>The cursor callback\<close>

text \<open>
  C6. For a surface whose width and height are not zero, the cursor callback maps the raw
  pixel coordinates \<open>(x, y)\<close> to \<open>x' = 2x/width - 1\<close> and \<open>y' = 1 - 2y/height\<close>; so the
  centre of the surface maps to \<open>(0, 0)\<close>, the top-left pixel \<open>(0, 0)\<close> to \<open>(-1, 1)\<close> and
  the bottom-right corner \<open>(width, height)\<close> to \<open>(1, -1)\<close>.
\<close>

theorem mouse_callback_normalizes:
  "wd \<noteq> 0 \<Longrightarrow> ht \<noteq> 0 \<Longrightarrow>
   mousePos (snd (mouse_callback window st
       \<lparr>xpos = x, ypos = y, fb_width = wd, fb_height = ht\<rparr>))
     = (Fin (2 * x / real_of_int wd - 1), Fin (1 - 2 * y / real_of_int ht)) \<and>
   mousePos (snd (mouse_callback window st
       \<lparr>xpos = real_of_int wd / 2, ypos = real_of_int ht / 2, fb_width = wd, fb_height = ht\<rparr>))
     = (Fin 0, Fin 0) \<and>
   mousePos (snd (mouse_callback window st
       \<lparr>xpos = 0, ypos = 0, fb_width = wd, fb_height = ht\<rparr>))
     = (Fin (- 1), Fin 1) \<and>
   mousePos (snd (mouse_callback window st
       \<lparr>xpos = real_of_int wd, ypos = real_of_int ht, fb_width = wd, fb_height = ht\<rparr>))
     = (Fin 1, Fin (- 1))"
  by (simp add: mouse_callback_def Let_def)

theorem mouse_callback_normalizes_witness:
  "mousePos (snd (mouse_callback 1 (initial_state example_world)
       \<lparr>xpos = 160, ypos = 360, fb_width = 640, fb_height = 480\<rparr>))
     = (Fin (- 1 / 2), Fin (- 1 / 2)) \<and>
   mousePos (snd (mouse_callback 1 (initial_state example_world)
       \<lparr>xpos = 320, ypos = 240, fb_width = 640, fb_height = 480\<rparr>))
     = (Fin 0, Fin 0)"
  using mouse_callback_normalizes [of 640 480 1 "initial_state example_world" 160 360]
  by simp

section \<open>Uniform lookups\<close>

text \<open>
  C7. In every pass, a uniform whose location lookup returns \<open>-1\<close> is reported on the
  error stream and not pushed; a uniform whose lookup succeeds is pushed at the location
  found, with the pointer position or the elapsed time of the pass, and nothing is
  reported. Whatever the two lookups return, the pass goes on to dispatch and to draw,
  leaves the same program state, and makes the same calls apart from the pushes and the
  reports.
\<close>

theorem uniform_lookup_soft_fail:
  "(mousePosLoc fw = - 1 \<longrightarrow>
      Std (Cerr ''mousePos uniform location not found.'') \<in> set (fst (frame w window fw st)) \<and>
      (\<forall>l a b. Gl (GlUniform2f l a b) \<notin> set (fst (frame w window fw st)))) \<and>
   (mousePosLoc fw \<noteq> - 1 \<longrightarrow>
      Gl (GlUniform2f (mousePosLoc fw) (fst (mousePos st)) (snd (mousePos st)))
        \<in> set (fst (frame w window fw st)) \<and>
      Std (Cerr ''mousePos uniform location not found.'') \<notin> set (fst (frame w window fw st))) \<and>
   (deltaTimeLoc fw = - 1 \<longrightarrow>
      Std (Cerr ''deltaTime uniform location not found.'') \<in> set (fst (frame w window fw st)) \<and>
      (\<forall>l a. Gl (GlUniform1f l a) \<notin> set (fst (frame w window fw st)))) \<and>
   (deltaTimeLoc fw \<noteq> - 1 \<longrightarrow>
      Gl (GlUniform1f (deltaTimeLoc fw) (Fin (now fw - lastFrameTime st)))
        \<in> set (fst (frame w window fw st)) \<and>
      Std (Cerr ''deltaTime uniform location not found.'') \<notin> set (fst (frame w window fw st))) \<and>
   Gl (GlDispatchCompute dispatch_groups 1 1) \<in> set (fst (frame w window fw st)) \<and>
   Gl (GlDrawArrays 0 NUM_PARTICLES) \<in> set (fst (frame w window fw st)) \<and>
   snd (frame w window (fw\<lparr>mousePosLoc := l1, deltaTimeLoc := l2\<rparr>) st)
     = snd (frame w window fw st) \<and>
   filter (\<lambda>c. \<not> uniform_reaction c)
       (fst (frame w window (fw\<lparr>mousePosLoc := l1, deltaTimeLoc := l2\<rparr>) st))
     = filter (\<lambda>c. \<not> uniform_reaction c) (fst (frame w window fw st))"
proof -
  have f: "filter (\<lambda>c. \<not> uniform_reaction c) (push_mousePos fw' s) = []"
          "filter (\<lambda>c. \<not> uniform_reaction c) (push_deltaTime fw' s) = []" for fw' s
    by (simp_all add: push_mousePos_def push_deltaTime_def)
  have dr: "debug_read (fw\<lparr>mousePosLoc := l1, deltaTimeLoc := l2\<rparr>) = debug_read fw"
    by (simp add: debug_read_def)
  have m1: "mousePosLoc fw = - 1 \<Longrightarrow>
      Std (Cerr ''mousePos uniform location not found.'') \<in> set (fst (frame w window fw st)) \<and>
      (\<forall>l a b. Gl (GlUniform2f l a b) \<notin> set (fst (frame w window fw st)))"
    by (auto simp: frame_calls push_mousePos_def push_deltaTime_def
          dest!: deliver_calls debug_read_calls)
  have m2: "mousePosLoc fw \<noteq> - 1 \<Longrightarrow>
      Gl (GlUniform2f (mousePosLoc fw) (fst (mousePos st)) (snd (mousePos st)))
        \<in> set (fst (frame w window fw st)) \<and>
      Std (Cerr ''mousePos uniform location not found.'') \<notin> set (fst (frame w window fw st))"
    by (auto simp: frame_calls push_mousePos_def push_deltaTime_def
          dest!: deliver_calls debug_read_calls)
  have t1: "deltaTimeLoc fw = - 1 \<Longrightarrow>
      Std (Cerr ''deltaTime uniform location not found.'') \<in> set (fst (frame w window fw st)) \<and>
      (\<forall>l a. Gl (GlUniform1f l a) \<notin> set (fst (frame w window fw st)))"
    by (auto simp: frame_calls push_mousePos_def push_deltaTime_def
          dest!: deliver_calls debug_read_calls)
  have t2: "deltaTimeLoc fw \<noteq> - 1 \<Longrightarrow>
      Gl (GlUniform1f (deltaTimeLoc fw) (Fin (now fw - lastFrameTime st)))
        \<in> set (fst (frame w window fw st)) \<and>
      Std (Cerr ''deltaTime uniform location not found.'') \<notin> set (fst (frame w window fw st))"
    by (auto simp: frame_calls push_mousePos_def push_deltaTime_def
          dest!: deliver_calls debug_read_calls)
  have g: "Gl (GlDispatchCompute dispatch_groups 1 1) \<in> set (fst (frame w window fw st))"
          "Gl (GlDrawArrays 0 NUM_PARTICLES) \<in> set (fst (frame w window fw st))"
    by (simp_all add: frame_calls)
  have s: "snd (frame w window (fw\<lparr>mousePosLoc := l1, deltaTimeLoc := l2\<rparr>) st)
     = snd (frame w window fw st)"
    by (simp add: frame_state)
  have e: "filter (\<lambda>c. \<not> uniform_reaction c)
       (fst (frame w window (fw\<lparr>mousePosLoc := l1, deltaTimeLoc := l2\<rparr>) st))
     = filter (\<lambda>c. \<not> uniform_reaction c) (fst (frame w window fw st))"
    by (simp add: frame_calls f dr)
  from m1 m2 t1 t2 g s e show ?thesis by blast
qed

theorem uniform_lookup_soft_fail_witness:
  "Std (Cerr ''mousePos uniform location not found.'')
     \<in> set (fst (frame example_world 1 (example_frame\<lparr>mousePosLoc := - 1\<rparr>)
                   (initial_state example_world))) \<and>
   Gl (GlUniform1f 4 (Fin 1))
     \<in> set (fst (frame example_world 1 (example_frame\<lparr>mousePosLoc := - 1\<rparr>)
                   (initial_state example_world)))"
  using uniform_lookup_soft_fail [of "example_frame\<lparr>mousePosLoc := - 1\<rparr>" example_world 1
      "initial_state example_world"]
  by (simp add: example_frame_def initial_state_def example_world_def)

section \<open>Failures of the initialisation\<close>

text \<open>
  C8. The specification asks that every failure to initialise a resource end the process
  with a non-zero exit code after releasing what was created before. When GLEW fails to
  initialise, after GLFW was initialised and the window created, \<open>main\<close> returns \<open>-1\<close>
  without another call: neither the window nor GLFW is released. The sibling path, in
  which no window is created, does call \<^verbatim>\<open>glfwTerminate\<close> before it returns.
\<close>

theorem glew_failure_releases_nothing:
  "main fuel glew_failure_world =
     Some ([Glfw GlfwInit,
            Glfw (GlfwCreateWindow 640 480 ''Compute Shader Particle System''),
            Glfw (GlfwMakeContextCurrent 1),
            Glfw GlewInit,
            Std (Cerr ''Failed to initialize GLEW'')], - 1) \<and>
   main fuel window_failure_world =
     Some ([Glfw GlfwInit,
            Glfw (GlfwCreateWindow 640 480 ''Compute Shader Particle System''),
            Std (Cerr ''Failed to create GLFW window''),
            Glfw GlfwTerminate], - 1)"
  by (simp add: main_def glew_failure_world_def window_failure_world_def example_world_def)

section \<open>A shader file that cannot be opened\<close>

text \<open>
  C9. When the file at the given path cannot be opened, \<open>ReadShaderFile\<close> returns the
  empty string; its only call is the attempt to open the file, so it reports nothing.
  A run whose compute shader file is missing, and whose initialisation succeeds, goes on
  to hand the empty text to the shader compiler, and returns 0 once the window closes.
\<close>

theorem missing_shader_file_reads_empty:
  "(fs shaderPath = None \<longrightarrow> ReadShaderFile fs shaderPath = ([Std (OpenFile shaderPath)], [])) \<and>
   (glfwInit_ok w \<and> created_window w = Some window \<and> glewInit_ok w \<and> should_close w k \<and>
    files w ''compute_shader.glsl'' = None \<longrightarrow>
      (\<exists>pre post. main (Suc k) w =
         Some (pre @ [Std (OpenFile ''compute_shader.glsl''),
                      Prog (GlCreateShader GL_COMPUTE_SHADER),
                      Prog (GlShaderSource (created_shader w GL_COMPUTE_SHADER) []),
                      Prog (GlCompileShader (created_shader w GL_COMPUTE_SHADER))] @ post, 0)))"
proof -
  have a: "fs shaderPath = None \<longrightarrow> ReadShaderFile fs shaderPath = ([Std (OpenFile shaderPath)], [])"
    by (simp add: ReadShaderFile_def)
  have b: "\<exists>pre post. main (Suc k) w =
         Some (pre @ [Std (OpenFile ''compute_shader.glsl''),
                      Prog (GlCreateShader GL_COMPUTE_SHADER),
                      Prog (GlShaderSource (created_shader w GL_COMPUTE_SHADER) []),
                      Prog (GlCompileShader (created_shader w GL_COMPUTE_SHADER))] @ post, 0)"
    if h: "glfwInit_ok w" "created_window w = Some window" "glewInit_ok w" "should_close w k"
      and n: "files w ''compute_shader.glsl'' = None"
  proof -
    from main_returns [OF h] obtain lc st where m: "main (Suc k) w =
        Some (startup_calls window @ fst (load_programs w)
         @ setup_buffers w (init_particles (random_library w) (rd w)) @ lc
         @ shutdown_calls w (fst (snd (load_programs w))) (fst (snd (snd (load_programs w))))
             (snd (snd (snd (load_programs w)))), 0)"
      by blast
    from load_programs_prefix [of w] n obtain rest where p: "fst (load_programs w) =
       [Std (OpenFile ''compute_shader.glsl''),
        Prog (GlCreateShader GL_COMPUTE_SHADER),
        Prog (GlShaderSource (created_shader w GL_COMPUTE_SHADER) []),
        Prog (GlCompileShader (created_shader w GL_COMPUTE_SHADER))] @ rest"
      by (auto simp: ReadShaderFile_def)
    have "main (Suc k) w = Some (startup_calls window @
       [Std (OpenFile ''compute_shader.glsl''),
        Prog (GlCreateShader GL_COMPUTE_SHADER),
        Prog (GlShaderSource (created_shader w GL_COMPUTE_SHADER) []),
        Prog (GlCompileShader (created_shader w GL_COMPUTE_SHADER))]
       @ (rest @ setup_buffers w (init_particles (random_library w) (rd w)) @ lc
         @ shutdown_calls w (fst (snd (load_programs w))) (fst (snd (snd (load_programs w))))
             (snd (snd (snd (load_programs w))))), 0)"
      by (simp add: m p)
    then show ?thesis by blast
  qed
  from a b show ?thesis by blast
qed

theorem missing_shader_file_reads_empty_witness:
  "\<exists>pre post. main 2 example_world =
         Some (pre @ [Std (OpenFile ''compute_shader.glsl''),
                      Prog (GlCreateShader GL_COMPUTE_SHADER),
                      Prog (GlShaderSource (created_shader example_world GL_COMPUTE_SHADER) []),
                      Prog (GlCompileShader (created_shader example_world GL_COMPUTE_SHADER))]
                 @ post, 0)"
proof -
  have h: "glfwInit_ok example_world \<and> created_window example_world = Some 1 \<and>
      glewInit_ok example_world \<and> should_close example_world 1 \<and>
      files example_world ''compute_shader.glsl'' = None"
    by (simp add: example_world_def)
  have e: "(2::nat) = Suc 1" by simp
  from missing_shader_file_reads_empty [of "files example_world" "''compute_shader.glsl''"
      example_world 1 1] h
  show ?thesis unfolding e by blast
qed

section \<open>Facts about the seeding\<close>

text \<open>
  A pass of the seeding loop overwrites every field of the particle, so its result is
  the particle built from the six numbers it draws; pass \<open>i\<close> starts with the engine
  the passes before it left.
\<close>

lemma seed_particle_draws:
  "seed_particle lib eng p =
     (particle_from_draws lib (fst (draw_pass lib eng)), snd (draw_pass lib eng))"
  by (cases p)
     (simp add: seed_particle_def draw_pass_def particle_from_draws_def distr_def
        colorDistr_def lifeTimeDistr_def Let_def split_beta)

lemma seed_particles_nth:
  "i < length ps \<Longrightarrow>
     fst (seed_particles lib eng ps) ! i =
       particle_from_draws lib (fst (draw_pass lib (((\<lambda>e. snd (draw_pass lib e)) ^^ i) eng)))"
proof (induction ps arbitrary: i eng)
  case Nil
  then show ?case by simp
next
  case (Cons p ps)
  show ?case
  proof (cases i)
    case 0
    then show ?thesis by (simp add: split_beta seed_particle_draws)
  next
    case (Suc j)
    let ?f = "\<lambda>e. snd (draw_pass lib e)"
    from Suc Cons.prems have j: "j < length ps" by simp
    have e: "(?f ^^ j) (snd (draw_pass lib eng)) = (?f ^^ i) eng"
      unfolding Suc by (simp only: funpow_Suc_right o_apply)
    have "fst (seed_particles lib eng (p # ps)) ! i
        = fst (seed_particles lib (snd (draw_pass lib eng)) ps) ! j"
      by (simp add: Suc split_beta seed_particle_draws)
    also have "\<dots> = particle_from_draws lib
        (fst (draw_pass lib ((?f ^^ j) (snd (draw_pass lib eng)))))"
      by (rule Cons.IH [OF j])
    finally show ?thesis by (simp only: e)
  qed
qed

lemma init_particles_length: "length (init_particles lib s) = nat NUM_PARTICLES"
  by (simp add: init_particles_def seed_particles_length particles_def)

lemma init_particles_nth:
  "i < nat NUM_PARTICLES \<Longrightarrow>
     init_particles lib s ! i = particle_from_draws lib (draws_for lib s i)"
  by (simp add: init_particles_def seed_particles_nth particles_def draws_for_def
        engine_before_def)

lemma place_eq_iff:
  "place ord a b c = place ord a' b' c' \<longleftrightarrow> a = a' \<and> b = b' \<and> c = c'"
  by (cases ord) auto

text \<open>
  With a library whose distribution keeps to its range, every seeded particle has an age
  of exactly 0 and a lifetime between 1.5 and 3. The velocity is whatever the library's
  \<^verbatim>\<open>glm::normalize\<close> and product return.
\<close>

lemma seeded_age_and_lifetime:
  assumes "\<forall>a b e. a < b \<longrightarrow> a \<le> fst (uniform_real_distribution lib a b e) \<and>
             fst (uniform_real_distribution lib a b e) \<le> b"
  shows "\<forall>p \<in> set (init_particles lib s).
     age p = Fin 0 \<and> (\<exists>l. lifeTime p = Fin l \<and> 1.5 \<le> l \<and> l \<le> 3)"
proof
  fix p assume "p \<in> set (init_particles lib s)"
  then obtain i where i: "i < nat NUM_PARTICLES" and p: "p = init_particles lib s ! i"
    by (auto simp: in_set_conv_nth init_particles_length)
  have "\<exists>e. life (fst (draw_pass lib eng)) = fst (uniform_real_distribution lib 1.5 3 e)" for eng
    by (auto simp: draw_pass_def Let_def split_beta)
  then obtain e where "life (draws_for lib s i) = fst (uniform_real_distribution lib 1.5 3 e)"
    unfolding draws_for_def by blast
  with assms [rule_format, of "1.5" 3 e]
  have "1.5 \<le> life (draws_for lib s i) \<and> life (draws_for lib s i) \<le> 3" by simp
  then show "age p = Fin 0 \<and> (\<exists>l. lifeTime p = Fin l \<and> 1.5 \<le> l \<and> l \<le> 3)"
    by (simp add: p init_particles_nth [OF i] particle_from_draws_def)
qed

lemma draws_counting:
  "draws_for counting_lib 5 1 =
     \<lparr>dir_x = 4 / 7, dir_y = 5 / 7, colour_1 = 13 / 14, colour_2 = 1 / 2, colour_3 = 4 / 7,
      life = 69 / 28\<rparr>"
  "draws_for counting_lib 0 1 =
     \<lparr>dir_x = 6 / 7, dir_y = 0, colour_1 = 4 / 7, colour_2 = 9 / 14, colour_3 = 5 / 7,
      life = 75 / 28\<rparr>"
  by (simp_all add: draws_for_def engine_before_def draw_pass_def counting_lib_def Let_def)

lemma counting_velocities:
  "snd (exact_scale (exact_normalize (Fin (4 / 7), Fin (5 / 7))) (fp_add (Fin 0.2) (Fin 0.005)))
     \<noteq> snd (exact_scale (exact_normalize (Fin (6 / 7), Fin 0)) (fp_add (Fin 0.2) (Fin 0.005)))"
  by (simp add: exact_scale_def exact_normalize_def exact_dot_def)

section \<open>The particles after initialisation\<close>

text \<open>
  C5. Every one of the \<open>N\<close> particles is initialised with the position \<open>(20, 20)\<close>, the
  same for all of them. The seeding reads the library and the random device only, so
  the particles a run uploads are these whatever cursor events the run receives.
\<close>

theorem particles_start_at_fixed_origin:
  "length (init_particles lib s) = nat NUM_PARTICLES \<and>
   (\<forall>p \<in> set (init_particles lib s). position p = (Fin 20, Fin 20)) \<and>
   (main fuel w = Some (calls, 0) \<longrightarrow>
      uploaded calls = Some (init_particles (random_library w) (rd w)))"
  by (auto simp: init_particles_def seed_particles_length particles_def main_uploads
        dest: seed_particles_position)

theorem particles_start_at_fixed_origin_witness:
  "\<exists>calls ps. main 2 example_world = Some (calls, 0) \<and> uploaded calls = Some ps \<and>
     length ps = 1000 \<and> position (ps ! 0) = (Fin 20, Fin 20)"
proof -
  from example_world_returns obtain calls where m: "main 2 example_world = Some (calls, 0)"
    by blast
  let ?ps = "init_particles (random_library example_world) (rd example_world)"
  from particles_start_at_fixed_origin [of "random_library example_world" "rd example_world"
      2 example_world calls] m
  have l: "length ?ps = nat NUM_PARTICLES" and a: "\<forall>p \<in> set ?ps. position p = (Fin 20, Fin 20)"
    and u: "uploaded calls = Some ?ps"
    by simp_all
  from l have n: "length ?ps = 1000" by (simp add: NUM_PARTICLES_def)
  then have "?ps ! 0 \<in> set ?ps" by (intro nth_mem) simp
  with a have "position (?ps ! 0) = (Fin 20, Fin 20)" by blast
  with m u n show ?thesis by blast
qed

section \<open>Where the seed comes from\<close>

text \<open>
  C10. The engine is seeded with the value the random device returns in this run; the
  program has no other seed. In two runs whose worlds differ in that value only, particle
  \<open>i\<close> of the uploaded data is, in each run, the particle built from the six numbers the
  library draws in pass \<open>i\<close> from the engine seeded with the value of that run. Between
  the two runs its lifetime differs exactly when the two lifetime draws differ, its
  colour exactly when one of the three colour draws, converted to \<^verbatim>\<open>float\<close>, differs,
  and its velocity exactly when the scaled normalised directions differ.
\<close>

theorem seeding_follows_random_device:
  "main fuel w = Some (calls, 0) \<Longrightarrow> main fuel' (w\<lparr>rd := s\<rparr>) = Some (calls', 0) \<Longrightarrow>
   i < nat NUM_PARTICLES \<Longrightarrow>
     (\<exists>ps ps'. uploaded calls = Some ps \<and> uploaded calls' = Some ps' \<and>
        ps ! i = particle_from_draws (random_library w) (draws_for (random_library w) (rd w) i) \<and>
        ps' ! i = particle_from_draws (random_library w) (draws_for (random_library w) s i) \<and>
        (lifeTime (ps ! i) = lifeTime (ps' ! i) \<longleftrightarrow>
           life (draws_for (random_library w) (rd w) i)
             = life (draws_for (random_library w) s i)) \<and>
        (color (ps ! i) = color (ps' ! i) \<longleftrightarrow>
           to_float (random_library w) (colour_1 (draws_for (random_library w) (rd w) i))
             = to_float (random_library w) (colour_1 (draws_for (random_library w) s i)) \<and>
           to_float (random_library w) (colour_2 (draws_for (random_library w) (rd w) i))
             = to_float (random_library w) (colour_2 (draws_for (random_library w) s i)) \<and>
           to_float (random_library w) (colour_3 (draws_for (random_library w) (rd w) i))
             = to_float (random_library w) (colour_3 (draws_for (random_library w) s i))) \<and>
        (velocity (ps ! i) = velocity (ps' ! i) \<longleftrightarrow>
           glm_scale (random_library w)
             (glm_normalize (random_library w)
                (to_float (random_library w) (dir_x (draws_for (random_library w) (rd w) i)),
                 to_float (random_library w) (dir_y (draws_for (random_library w) (rd w) i))))
             (fp_add (Fin 0.2) (Fin 0.005))
           = glm_scale (random_library w)
               (glm_normalize (random_library w)
                  (to_float (random_library w) (dir_x (draws_for (random_library w) s i)),
                   to_float (random_library w) (dir_y (draws_for (random_library w) s i))))
               (fp_add (Fin 0.2) (Fin 0.005))))"
proof -
  assume m: "main fuel w = Some (calls, 0)" and m': "main fuel' (w\<lparr>rd := s\<rparr>) = Some (calls', 0)"
    and i: "i < nat NUM_PARTICLES"
  let ?lib = "random_library w"
  let ?ps = "init_particles ?lib (rd w)" and ?ps' = "init_particles ?lib s"
  have u: "uploaded calls = Some ?ps" using main_uploads [OF m] .
  have u': "uploaded calls' = Some ?ps'" using main_uploads [OF m'] by simp
  have n: "?ps ! i = particle_from_draws ?lib (draws_for ?lib (rd w) i)"
    and n': "?ps' ! i = particle_from_draws ?lib (draws_for ?lib s i)"
    using i by (simp_all add: init_particles_nth)
  have l: "lifeTime (?ps ! i) = lifeTime (?ps' ! i) \<longleftrightarrow>
      life (draws_for ?lib (rd w) i) = life (draws_for ?lib s i)"
    by (simp add: n n' particle_from_draws_def)
  have c: "color (?ps ! i) = color (?ps' ! i) \<longleftrightarrow>
           to_float ?lib (colour_1 (draws_for ?lib (rd w) i))
             = to_float ?lib (colour_1 (draws_for ?lib s i)) \<and>
           to_float ?lib (colour_2 (draws_for ?lib (rd w) i))
             = to_float ?lib (colour_2 (draws_for ?lib s i)) \<and>
           to_float ?lib (colour_3 (draws_for ?lib (rd w) i))
             = to_float ?lib (colour_3 (draws_for ?lib s i))"
    unfolding n n'
    by (cases "argument_order ?lib") (auto simp: particle_from_draws_def)
  have v: "velocity (?ps ! i) = velocity (?ps' ! i) \<longleftrightarrow>
           glm_scale ?lib
             (glm_normalize ?lib (to_float ?lib (dir_x (draws_for ?lib (rd w) i)),
                                  to_float ?lib (dir_y (draws_for ?lib (rd w) i))))
             (fp_add (Fin 0.2) (Fin 0.005))
           = glm_scale ?lib
               (glm_normalize ?lib (to_float ?lib (dir_x (draws_for ?lib s i)),
                                    to_float ?lib (dir_y (draws_for ?lib s i))))
               (fp_add (Fin 0.2) (Fin 0.005))"
    by (simp add: n n' particle_from_draws_def)
  from u u' n n' l c v show ?thesis by blast
qed

theorem seeding_follows_random_device_witness:
  "\<exists>calls calls' ps ps'. main 2 example_world = Some (calls, 0) \<and>
     main 2 (example_world\<lparr>rd := 0\<rparr>) = Some (calls', 0) \<and>
     uploaded calls = Some ps \<and> uploaded calls' = Some ps' \<and>
     velocity (ps ! 1) \<noteq> velocity (ps' ! 1) \<and>
     color (ps ! 1) \<noteq> color (ps' ! 1) \<and>
     lifeTime (ps ! 1) \<noteq> lifeTime (ps' ! 1)"
proof -
  from example_world_returns obtain calls where m: "main 2 example_world = Some (calls, 0)"
    by blast
  have "glfwInit_ok (example_world\<lparr>rd := 0\<rparr>)"
    "created_window (example_world\<lparr>rd := 0\<rparr>) = Some 1"
    "glewInit_ok (example_world\<lparr>rd := 0\<rparr>)" "should_close (example_world\<lparr>rd := 0\<rparr>) 1"
    by (simp_all add: example_world_def)
  from main_returns [OF this] obtain calls'
    where "main (Suc 1) (example_world\<lparr>rd := 0\<rparr>) = Some (calls', 0)" by blast
  then have m': "main 2 (example_world\<lparr>rd := 0\<rparr>) = Some (calls', 0)"
    by (simp add: numeral_2_eq_2)
  have i: "1 < nat NUM_PARTICLES" by (simp add: NUM_PARTICLES_def)
  have lib: "random_library example_world = counting_lib" and s: "rd example_world = 5"
    by (simp_all add: example_world_def)
  from seeding_follows_random_device [OF m m' i] obtain ps ps'
    where u: "uploaded calls = Some ps" "uploaded calls' = Some ps'"
      and p: "ps ! 1 = particle_from_draws counting_lib (draws_for counting_lib 5 1)"
        "ps' ! 1 = particle_from_draws counting_lib (draws_for counting_lib 0 1)"
    unfolding lib s by blast
  have l: "lifeTime (ps ! 1) \<noteq> lifeTime (ps' ! 1)"
    unfolding p draws_counting by (simp add: particle_from_draws_def)
  have c: "color (ps ! 1) \<noteq> color (ps' ! 1)"
    unfolding p draws_counting by (simp add: particle_from_draws_def counting_lib_def)
  have "snd (velocity (ps ! 1)) \<noteq> snd (velocity (ps' ! 1))"
    using counting_velocities unfolding p draws_counting
    by (simp add: particle_from_draws_def counting_lib_def)
  then have v: "velocity (ps ! 1) \<noteq> velocity (ps' ! 1)" by auto
  from m m' u l c v show ?thesis by blast
qed

end
